theory Spec2Isabelle
  imports Complex_Main
begin

section \<open>The attribution analysis service\<close>

text \<open>
  A shallow embedding of \<^verbatim>\<open>AttributionAnalysisService\<close>
  (\<^verbatim>\<open>src/control-plane/backend/lambda/api/service/attribution.ts\<close>).
  The service is an orchestrator: it calls a validator, a pipeline resolver, an encoder,
  one of three SQL builders and the reporting adapter, and answers with an HTTP status.
  None of these collaborators is part of the file; each is a parameter of the model, and
  every call is written to a trace, so that the order and the number of the calls can be
  stated.
\<close>

subsection \<open>Request bodies\<close>

text \<open>
  \<^verbatim>\<open>req.body\<close> is untyped JSON. The keys that the service tests for truthiness,
  compares with \<^verbatim>\<open>===\<close> or passes on are optional strings: \<open>None\<close> is a key that is
  missing (\<^verbatim>\<open>undefined\<close>) or \<^verbatim>\<open>null\<close>. The key \<^verbatim>\<open>modelType\<close>, which the service
  compares with the coercing \<^verbatim>\<open>==\<close>, is kept as the JSON value it is. The keys the
  service never reads (event names, conditions and the like) are kept in \<open>others\<close>.
\<close>

datatype json =
    JNull
  | JBool bool
  | JNum int
  | JStr string
  | JArr "json list"
  | JObj "(string \<times> json) list"

text \<open>
  \<^verbatim>\<open>v == c\<close> for a string \<open>c\<close> that is a plain word, as the members of the
  enumerations are (not empty, no comma, not a numeral, not \<^verbatim>\<open>true\<close>, \<^verbatim>\<open>false\<close> or
  \<^verbatim>\<open>[object Object]\<close>). A string is compared as it is. An array is first converted to
  a string, its elements joined by commas, and that is the word only for an array of
  one element that converts to the word itself: \<^verbatim>\<open>["LINEAR"] == "LINEAR"\<close> holds.
  \<^verbatim>\<open>null\<close>, a boolean or a number (converted to numbers, the word to \<^verbatim>\<open>NaN\<close>) and an
  object (converted to \<^verbatim>\<open>[object Object]\<close>) are never equal to the word; neither is
  \<^verbatim>\<open>undefined\<close>.
\<close>

fun looseEqualsWord :: "json \<Rightarrow> string \<Rightarrow> bool" where
  "looseEqualsWord (JStr s) c = (s = c)"
| "looseEqualsWord (JArr [v]) c = looseEqualsWord v c"
| "looseEqualsWord _ c = False"

definition looseEq :: "json option \<Rightarrow> string \<Rightarrow> bool" where
  "looseEq v c = (case v of None \<Rightarrow> False | Some j \<Rightarrow> looseEqualsWord j c)"

record query =
  projectId :: "string option"
  appId :: "string option"
  timezone :: "string option"
  dashboardId :: "string option"
  sheetId :: "string option"
  modelType :: "json option"
  action :: "string option"
  viewName :: "string option"
  "locale" :: "string option"
  chartType :: "string option"
  timeScopeType :: "string option"
  lastN :: "string option"
  timeUnit :: "string option"
  timeStart :: "string option"
  timeEnd :: "string option"
  others :: "(string \<times> string) list"

text \<open>
  \<^verbatim>\<open>AttributionSQLParameters\<close> as the service builds it: the request with the two keys
  \<^verbatim>\<open>schemaName\<close> and \<^verbatim>\<open>dbName\<close> added.
\<close>

record AttributionSQLParameters = query +
  schemaName :: "string option"
  dbName :: "string option"

text \<open>JavaScript's truthiness, which \<^verbatim>\<open>!query.dashboardId\<close> tests: a missing key and the
  empty string are falsy.\<close>

definition truthy :: "string option \<Rightarrow> bool" where
  "truthy v = (case v of None \<Rightarrow> False | Some s \<Rightarrow> s \<noteq> [])"

text \<open>The nullish coalescing \<^verbatim>\<open>v ?? d\<close>: the default only for a missing value, the empty
  string is kept.\<close>

definition nullish :: "string option \<Rightarrow> string \<Rightarrow> string" where
  "nullish v d = (case v of None \<Rightarrow> d | Some s \<Rightarrow> s)"

text \<open>
  Modelled from the spec: the enumerations \<^verbatim>\<open>AttributionModelType\<close>,
  \<^verbatim>\<open>ExploreRequestAction\<close>, \<^verbatim>\<open>ExploreLocales\<close>, \<^verbatim>\<open>QuickSightChartType\<close> and
  \<^verbatim>\<open>ExploreVisualName\<close> of \<^verbatim>\<open>@aws/clickstream-base-lib\<close> are not under src/. The spec
  writes their members as the strings below; each member stands for its own name.
\<close>

definition LAST_TOUCH :: string where "LAST_TOUCH = ''LAST_TOUCH''"
definition FIRST_TOUCH :: string where "FIRST_TOUCH = ''FIRST_TOUCH''"
definition LINEAR :: string where "LINEAR = ''LINEAR''"
definition POSITION :: string where "POSITION = ''POSITION''"
definition PREVIEW :: string where "PREVIEW = ''PREVIEW''"
definition EN_US :: string where "EN_US = ''EN_US''"
definition TABLE :: string where "TABLE = ''TABLE''"
definition CHART :: string where "CHART = ''CHART''"

subsection \<open>Responses and collaborators\<close>

record CheckParamsStatus =
  success :: bool
  message :: string

record CreateDashboardResult =
  dashboardEmbedUrl :: string
  resultFields :: "(string \<times> string) list"

datatype apiBody = ApiFail string | ApiSuccess CreateDashboardResult

datatype exn = Exn string

text \<open>What the Express handler does with a request: it answers with a status and a body
  (\<^verbatim>\<open>res.status(n).json(b)\<close> or \<^verbatim>\<open>.send(b)\<close>, the same for an object), or it hands an
  exception to \<^verbatim>\<open>next\<close>.\<close>

datatype outcome = Response nat apiBody | Next exn

text \<open>The objects handed to the reporting adapter. The field names of the source are
  prefixed, since \<^verbatim>\<open>sheetId\<close>, \<^verbatim>\<open>viewName\<close> and others are keys of the request
  too. \<open>'j\<close> is the type of the QuickSight definitions, which the service only passes
  on.\<close>

record 'j DataSetProps =
  ds_tableName :: string
  ds_columns :: 'j
  ds_importMode :: string
  ds_customSql :: string
  ds_projectedColumns :: "string list"

record VisualRelatedDefParams =
  vr_timeScopeType :: "string option"
  vr_sheetId :: string
  vr_visualId :: string
  vr_viewName :: string
  vr_lastN :: "string option"
  vr_timeUnit :: "string option"
  vr_timeStart :: "string option"
  vr_timeEnd :: "string option"

record 'j VisualRelatedDefs =
  filterControl :: 'j
  parameterDeclarations :: 'j
  filterGroup :: 'j

record 'j VisualProps =
  vp_sheetId :: string
  vp_name :: string
  vp_visualId :: string
  vp_visual :: 'j
  vp_dataSetIdentifierDeclaration :: "'j list"
  vp_filterControl :: 'j
  vp_parameterDeclarations :: 'j
  vp_filterGroup :: 'j

text \<open>One entry of the trace for every call the service makes, with the arguments of
  the call.\<close>

datatype 'j event =
    Validate query
  | PipelineLookup "string option"
  | TimezoneLookup "string option"
  | Encode query
  | NewUuid string
  | SinglePointBuilder AttributionSQLParameters
  | LinearBuilder AttributionSQLParameters
  | PositionBuilder AttributionSQLParameters
  | TempResourceName "string option" "string option"
  | TitleProps query
  | TableVisualDef string string 'j string
  | VisualRelatedDefsCall VisualRelatedDefParams string
  | DashboardVisuals string string query "'j DataSetProps list" "'j VisualProps list"

text \<open>
  The collaborators, none of them under src/: the functions of
  \<^verbatim>\<open>quicksight/reporting-utils\<close> and \<^verbatim>\<open>quicksight/sql-builder-attribution\<close>,
  \<^verbatim>\<open>PipelineServ\<close>, \<^verbatim>\<open>ReportingService\<close> and \<^verbatim>\<open>uuidv4\<close>. Any of them may throw
  (\<open>Inl\<close>). \<open>'p\<close> is the pipeline type. The encoder mutates the request in place; here
  it returns the mutated request. \<^verbatim>\<open>uuidv4\<close> is a supply of identifiers, read by a
  counter. The other collaborators are taken not to mutate the request.
\<close>

record ('p, 'j) env =
  checkAttributionAnalysisParameter :: "query \<Rightarrow> exn + CheckParamsStatus"
  getPipelineByProjectId :: "string option \<Rightarrow> exn + 'p option"
  getTimezoneByAppId :: "'p \<Rightarrow> string option \<Rightarrow> exn + string"
  encodeAttributionQueryValueForSql :: "query \<Rightarrow> exn + query"
  uuidv4 :: "nat \<Rightarrow> string"
  buildSQLForSinglePointModel :: "AttributionSQLParameters \<Rightarrow> exn + string"
  buildSQLForLinearModel :: "AttributionSQLParameters \<Rightarrow> exn + string"
  buildSQLForPositionModel :: "AttributionSQLParameters \<Rightarrow> exn + string"
  getTempResourceName :: "string option \<Rightarrow> string option \<Rightarrow> exn + string"
  attributionVisualColumns :: 'j
  getDashboardTitleProps :: "query \<Rightarrow> exn + 'j"
  getAttributionTableVisualDef :: "string \<Rightarrow> string \<Rightarrow> 'j \<Rightarrow> string \<Rightarrow> exn + 'j"
  getVisualRelatedDefs :: "VisualRelatedDefParams \<Rightarrow> string \<Rightarrow> exn + 'j VisualRelatedDefs"
  createDashboardVisuals ::
    "string \<Rightarrow> string \<Rightarrow> query \<Rightarrow> 'p \<Rightarrow> 'j DataSetProps list \<Rightarrow> 'j VisualProps list
       \<Rightarrow> exn + CreateDashboardResult option"

subsection \<open>Running a handler\<close>

text \<open>The state of one request: the calls made so far and the number of identifiers
  drawn. A step either goes on with a value, or stops: by an exception or by an early
  \<^verbatim>\<open>return res.status(...)\<close>.\<close>

record 'j state =
  trace :: "'j event list"
  uuidCount :: nat

datatype stop = Throw exn | Return nat apiBody

type_synonym ('j, 'a) prog = "'j state \<Rightarrow> (stop + 'a) \<times> 'j state"

definition andThen :: "('j, 'a) prog \<Rightarrow> ('a \<Rightarrow> ('j, 'b) prog) \<Rightarrow> ('j, 'b) prog" where
  "andThen m f = (\<lambda>s. case m s of
       (Inl e, s') \<Rightarrow> (Inl e, s')
     | (Inr v, s') \<Rightarrow> f v s')"

definition yield :: "'a \<Rightarrow> ('j, 'a) prog" where
  "yield v = (\<lambda>s. (Inr v, s))"

definition respond :: "nat \<Rightarrow> apiBody \<Rightarrow> ('j, 'a) prog" where
  "respond code b = (\<lambda>s. (Inl (Return code b), s))"

definition call :: "'j event \<Rightarrow> exn + 'a \<Rightarrow> ('j, 'a) prog" where
  "call ev r = (\<lambda>s. (case r of Inl e \<Rightarrow> Inl (Throw e) | Inr v \<Rightarrow> Inr v,
                      s\<lparr>trace := trace s @ [ev]\<rparr>))"

definition freshUuid :: "('p, 'j) env \<Rightarrow> ('j, string) prog" where
  "freshUuid E = (\<lambda>s. (Inr (uuidv4 E (uuidCount s)),
                      s\<lparr>trace := trace s @ [NewUuid (uuidv4 E (uuidCount s))],
                        uuidCount := Suc (uuidCount s)\<rparr>))"

subsection \<open>The service\<close>

definition createModelVisual ::
  "('p, 'j) env \<Rightarrow> string \<Rightarrow> string \<Rightarrow> query \<Rightarrow> 'p \<Rightarrow> ('j, CreateDashboardResult option) prog" where
  "createModelVisual E visualSql sheet q pipeline =
     andThen (call (TempResourceName (viewName q) (action q))
                (getTempResourceName E (viewName q) (action q))) (\<lambda>view.
     let datasetPropsArray =
           [\<lparr>ds_tableName = view,
             ds_columns = attributionVisualColumns E,
             ds_importMode = ''DIRECT_QUERY'',
             ds_customSql = visualSql,
             ds_projectedColumns =
               [''Trigger Count'', ''Touch Point Name'', ''Number of Total Conversion'',
                ''Number of Triggers with Conversion'', ''Contribution(number/sum...value)'',
                ''Contribution Rate'']\<rparr>];
         loc = nullish (locale q) EN_US
     in
     andThen (freshUuid E) (\<lambda>visualId.
     andThen (call (TitleProps q) (getDashboardTitleProps E q)) (\<lambda>titleProps.
     let quickSightChartType = nullish (chartType q) TABLE in
     andThen (call (TableVisualDef visualId view titleProps quickSightChartType)
                (getAttributionTableVisualDef E visualId view titleProps quickSightChartType))
       (\<lambda>visualDef.
     let params =
           \<lparr>vr_timeScopeType = timeScopeType q,
            vr_sheetId = sheet,
            vr_visualId = visualId,
            vr_viewName = view,
            vr_lastN = lastN q,
            vr_timeUnit = timeUnit q,
            vr_timeStart = timeStart q,
            vr_timeEnd = timeEnd q\<rparr>
     in
     andThen (call (VisualRelatedDefsCall params loc) (getVisualRelatedDefs E params loc))
       (\<lambda>visualRelatedParams.
     let visualProps =
           \<lparr>vp_sheetId = sheet,
            vp_name = CHART,
            vp_visualId = visualId,
            vp_visual = visualDef,
            vp_dataSetIdentifierDeclaration = [],
            vp_filterControl = filterControl visualRelatedParams,
            vp_parameterDeclarations = parameterDeclarations visualRelatedParams,
            vp_filterGroup = filterGroup visualRelatedParams\<rparr>
     in
     call (DashboardVisuals sheet view q datasetPropsArray [visualProps])
       (createDashboardVisuals E sheet view q pipeline datasetPropsArray [visualProps]))))))"

text \<open>The object literal \<^verbatim>\<open>{...query, schemaName: query.appId, dbName: query.projectId}\<close>
  is written out in each of the three methods, as in the source.\<close>

definition createSinglePointModelVisual ::
  "('p, 'j) env \<Rightarrow> string \<Rightarrow> query \<Rightarrow> 'p \<Rightarrow> ('j, CreateDashboardResult option) prog" where
  "createSinglePointModelVisual E sheet q pipeline =
     (let params = query.extend q \<lparr>schemaName = appId q, dbName = projectId q\<rparr> in
      andThen (call (SinglePointBuilder params) (buildSQLForSinglePointModel E params))
        (\<lambda>sql. createModelVisual E sql sheet q pipeline))"

definition createLinearModelVisual ::
  "('p, 'j) env \<Rightarrow> string \<Rightarrow> query \<Rightarrow> 'p \<Rightarrow> ('j, CreateDashboardResult option) prog" where
  "createLinearModelVisual E sheet q pipeline =
     (let params = query.extend q \<lparr>schemaName = appId q, dbName = projectId q\<rparr> in
      andThen (call (LinearBuilder params) (buildSQLForLinearModel E params))
        (\<lambda>sql. createModelVisual E sql sheet q pipeline))"

definition createPositionBasedModelVisual ::
  "('p, 'j) env \<Rightarrow> string \<Rightarrow> query \<Rightarrow> 'p \<Rightarrow> ('j, CreateDashboardResult option) prog" where
  "createPositionBasedModelVisual E sheet q pipeline =
     (let params = query.extend q \<lparr>schemaName = appId q, dbName = projectId q\<rparr> in
      andThen (call (PositionBuilder params) (buildSQLForPositionModel E params))
        (\<lambda>sql. createModelVisual E sql sheet q pipeline))"

text \<open>Lines 49 to 57: the sheet identifier.\<close>

definition chooseSheetId :: "('p, 'j) env \<Rightarrow> query \<Rightarrow> ('j, string) prog" where
  "chooseSheetId E q =
     (if \<not> truthy (dashboardId q) then freshUuid E
      else if \<not> truthy (sheetId q) then respond 400 (ApiFail ''missing required parameter sheetId'')
      else yield (the (sheetId q)))"

text \<open>Lines 59 to 68: the dispatch on the model type, by \<^verbatim>\<open>==\<close>.\<close>

definition dispatch ::
  "('p, 'j) env \<Rightarrow> string \<Rightarrow> query \<Rightarrow> 'p \<Rightarrow> ('j, CreateDashboardResult option) prog" where
  "dispatch E sheet q pipeline =
     (if looseEq (modelType q) LAST_TOUCH \<or> looseEq (modelType q) FIRST_TOUCH
        then createSinglePointModelVisual E sheet q pipeline
      else if looseEq (modelType q) LINEAR then createLinearModelVisual E sheet q pipeline
      else if looseEq (modelType q) POSITION then createPositionBasedModelVisual E sheet q pipeline
      else respond 400 (ApiFail ''Invalid attribution analysis model type''))"

text \<open>Lines 70 to 73: the answer. \<^verbatim>\<open>&&\<close> binds tighter than \<^verbatim>\<open>||\<close>.\<close>

definition answer :: "query \<Rightarrow> CreateDashboardResult option \<Rightarrow> ('j, nat \<times> apiBody) prog" where
  "answer q result =
     (case result of
        None \<Rightarrow> respond 500 (ApiFail ''Failed to create resources, please try again later.'')
      | Some r \<Rightarrow>
          if dashboardEmbedUrl r = [] \<and> action q = Some PREVIEW
          then respond 500 (ApiFail ''Failed to create resources, please try again later.'')
          else yield (201, ApiSuccess r))"

text \<open>Lines 34 to 47 of the \<^verbatim>\<open>try\<close> block: validation, the pipeline, the time zone
  written into the request, the encoder. The result is the request as the rest of the
  handler reads it, and the pipeline.\<close>

definition prepare :: "('p, 'j) env \<Rightarrow> query \<Rightarrow> ('j, query \<times> 'p) prog" where
  "prepare E q0 =
     andThen (call (Validate q0) (checkAttributionAnalysisParameter E q0)) (\<lambda>checkResult.
     if \<not> success checkResult then respond 400 (ApiFail (message checkResult))
     else
     andThen (call (PipelineLookup (projectId q0)) (getPipelineByProjectId E (projectId q0)))
       (\<lambda>found.
     case found of
       None \<Rightarrow> respond 404 (ApiFail ''Pipeline not found'')
     | Some pipeline \<Rightarrow>
     andThen (call (TimezoneLookup (appId q0)) (getTimezoneByAppId E pipeline (appId q0)))
       (\<lambda>tz.
     andThen (call (Encode (q0\<lparr>timezone := Some tz\<rparr>))
                (encodeAttributionQueryValueForSql E (q0\<lparr>timezone := Some tz\<rparr>)))
       (\<lambda>q. yield (q, pipeline)))))"

text \<open>Lines 49 to 68: the sheet identifier, then the dispatch.\<close>

definition render ::
  "('p, 'j) env \<Rightarrow> query \<Rightarrow> 'p \<Rightarrow> ('j, CreateDashboardResult option) prog" where
  "render E q pipeline = andThen (chooseSheetId E q) (\<lambda>sheet. dispatch E sheet q pipeline)"

text \<open>The body of the \<^verbatim>\<open>try\<close> block.\<close>

definition handler :: "('p, 'j) env \<Rightarrow> query \<Rightarrow> ('j, nat \<times> apiBody) prog" where
  "handler E q0 =
     andThen (prepare E q0) (\<lambda>(q, pipeline).
     andThen (render E q pipeline) (\<lambda>result. answer q result))"

text \<open>The end of a run: the answer that was sent, or the \<^verbatim>\<open>catch\<close> that forwards an
  exception to \<^verbatim>\<open>next\<close>; and the calls that were made.\<close>

definition finish :: "(stop + nat \<times> apiBody) \<times> 'j state \<Rightarrow> outcome \<times> 'j event list" where
  "finish r =
     (case r of
        (Inl (Throw e), s) \<Rightarrow> (Next e, trace s)
      | (Inl (Return code b), s) \<Rightarrow> (Response code b, trace s)
      | (Inr (code, b), s) \<Rightarrow> (Response code b, trace s))"

text \<open>\<^verbatim>\<open>createAttributionAnalysisVisual\<close>. A request starts with an empty trace; \<open>n\<close> is
  the number of identifiers the supply has given out before.\<close>

definition createAttributionAnalysisVisual ::
  "('p, 'j) env \<Rightarrow> query \<Rightarrow> nat \<Rightarrow> outcome \<times> 'j event list" where
  "createAttributionAnalysisVisual E q0 n = finish (handler E q0 \<lparr>trace = [], uuidCount = n\<rparr>)"

subsection \<open>Reading a trace\<close>

fun isBuilderCall :: "'j event \<Rightarrow> bool" where
  "isBuilderCall (SinglePointBuilder _) = True"
| "isBuilderCall (LinearBuilder _) = True"
| "isBuilderCall (PositionBuilder _) = True"
| "isBuilderCall _ = False"

fun isEncodeCall :: "'j event \<Rightarrow> bool" where
  "isEncodeCall (Encode _) = True"
| "isEncodeCall _ = False"

text \<open>The calls of \<^verbatim>\<open>createModelVisual\<close>, which end in the call of the reporting
  adapter.\<close>

fun isVisualCall :: "'j event \<Rightarrow> bool" where
  "isVisualCall (TempResourceName _ _) = True"
| "isVisualCall (TitleProps _) = True"
| "isVisualCall (TableVisualDef _ _ _ _) = True"
| "isVisualCall (VisualRelatedDefsCall _ _) = True"
| "isVisualCall (DashboardVisuals _ _ _ _ _) = True"
| "isVisualCall _ = False"

definition builderCalls :: "'j event list \<Rightarrow> 'j event list" where
  "builderCalls tr = filter isBuilderCall tr"

definition encodeCalls :: "'j event list \<Rightarrow> 'j event list" where
  "encodeCalls tr = filter isEncodeCall tr"

definition visualCalls :: "'j event list \<Rightarrow> 'j event list" where
  "visualCalls tr = filter isVisualCall tr"

subsection \<open>A concrete environment\<close>

text \<open>Collaborators that always return, for running the service on concrete requests:
  the validator answers \<open>check\<close>, the resolver \<open>found\<close>, the reporting adapter
  \<open>result\<close>; the encoder doubles the single quotes in the values of \<open>others\<close>.\<close>

fun escapeQuotes :: "string \<Rightarrow> string" where
  "escapeQuotes [] = []"
| "escapeQuotes (c # cs) =
     (if c = CHR 0x27 then c # c # escapeQuotes cs else c # escapeQuotes cs)"

definition stubEnv ::
  "CheckParamsStatus \<Rightarrow> string option \<Rightarrow> CreateDashboardResult option \<Rightarrow> (string, string) env" where
  "stubEnv check found result =
     \<lparr>checkAttributionAnalysisParameter = (\<lambda>q. Inr check),
      getPipelineByProjectId = (\<lambda>p. Inr found),
      getTimezoneByAppId = (\<lambda>p a. Inr ''+00:00''),
      encodeAttributionQueryValueForSql =
        (\<lambda>q. Inr (q\<lparr>others := map (\<lambda>(k, v). (k, escapeQuotes v)) (others q)\<rparr>)),
      uuidv4 = (\<lambda>n. ''uuid-'' @ replicate n (CHR ''i'')),
      buildSQLForSinglePointModel = (\<lambda>p. Inr ''select 1''),
      buildSQLForLinearModel = (\<lambda>p. Inr ''select 2''),
      buildSQLForPositionModel = (\<lambda>p. Inr ''select 3''),
      getTempResourceName = (\<lambda>v a. Inr (nullish v ''view'' @ ''_'' @ nullish a ''none'')),
      attributionVisualColumns = ''columns'',
      getDashboardTitleProps = (\<lambda>q. Inr ''title''),
      getAttributionTableVisualDef = (\<lambda>visualId view titleProps ct. Inr ''visual''),
      getVisualRelatedDefs = (\<lambda>params loc.
        Inr \<lparr>filterControl = ''fc'', parameterDeclarations = ''pd'', filterGroup = ''fg''\<rparr>),
      createDashboardVisuals = (\<lambda>sheet view q pipeline datasets visuals. Inr result)\<rparr>"

definition okStatus :: CheckParamsStatus where
  "okStatus = \<lparr>success = True, message = ''OK''\<rparr>"

definition failStatus :: CheckParamsStatus where
  "failStatus = \<lparr>success = False, message = ''Missing required parameter.''\<rparr>"

definition artifact :: "string \<Rightarrow> CreateDashboardResult" where
  "artifact url = \<lparr>dashboardEmbedUrl = url, resultFields = [(''dashboardId'', ''d1'')]\<rparr>"

text \<open>The request of the spec's end-to-end scenario.\<close>

definition scenario :: query where
  "scenario =
     \<lparr>projectId = Some ''p1'', appId = Some ''a1'', timezone = None, dashboardId = None,
      sheetId = None, modelType = Some (JStr LAST_TOUCH), action = Some PREVIEW,
      viewName = Some ''v1'', locale = None, chartType = None,
      timeScopeType = Some ''FIXED'', lastN = None, timeUnit = None,
      timeStart = Some ''2024-01-01'', timeEnd = Some ''2024-01-31'',
      others = [(''touchPointEventName'', ''view_item''), (''conversionEventName'', ''purchase'')]\<rparr>"


fun statusOf :: "outcome \<Rightarrow> nat option" where
  "statusOf (Response code b) = Some code"
| "statusOf (Next e) = None"

text \<open>The sheet identifiers that reached the reporting adapter.\<close>

fun sheetArg :: "'j event \<Rightarrow> string list" where
  "sheetArg (DashboardVisuals sheet _ _ _ _) = [sheet]"
| "sheetArg _ = []"

definition sheetsUsed :: "'j event list \<Rightarrow> string list" where
  "sheetsUsed tr = concat (map sheetArg tr)"

definition happyEnv :: "(string, string) env" where
  "happyEnv = stubEnv okStatus (Some ''pipeline-1'') (Some (artifact ''https://embed''))"

text \<open>
  Modelled from the spec: \<^verbatim>\<open>checkAttributionAnalysisParameter\<close> of
  \<^verbatim>\<open>quicksight/reporting-utils\<close> is not under src/. Section 4.1 gives its checks: the
  model type is one of the four members of the enumeration; the time scope is either
  relative (a count and a unit) or absolute (a start and an end), not a mix and not
  neither; the required identifiers (project, app, touch-point event name, conversion
  event name) are non-empty; if \<^verbatim>\<open>dashboardId\<close> is supplied, \<^verbatim>\<open>sheetId\<close> is supplied
  too. A failure is a status with a message, never an exception. The spec asks the
  required identifiers to be non-empty and the sheet only to be supplied; the last
  check is on the presence of the keys.
\<close>

definition otherField :: "query \<Rightarrow> string \<Rightarrow> string option" where
  "otherField q name = map_of (others q) name"

definition specCheck :: "query \<Rightarrow> CheckParamsStatus" where
  "specCheck q =
     (if modelType q \<notin> set [Some (JStr FIRST_TOUCH), Some (JStr LAST_TOUCH),
                               Some (JStr LINEAR), Some (JStr POSITION)]
        then \<lparr>success = False, message = ''Unsupported model type.''\<rparr>
      else if \<not> ((lastN q \<noteq> None \<and> timeUnit q \<noteq> None \<and> timeStart q = None \<and> timeEnd q = None)
                 \<or> (timeStart q \<noteq> None \<and> timeEnd q \<noteq> None \<and> lastN q = None \<and> timeUnit q = None))
        then \<lparr>success = False, message = ''Inconsistent time scope.''\<rparr>
      else if \<not> (truthy (projectId q) \<and> truthy (appId q)
                 \<and> truthy (otherField q ''touchPointEventName'')
                 \<and> truthy (otherField q ''conversionEventName''))
        then \<lparr>success = False, message = ''Missing required parameter.''\<rparr>
      else if dashboardId q \<noteq> None \<and> sheetId q = None
        then \<lparr>success = False, message = ''Missing required parameter sheetId.''\<rparr>
      else okStatus)"

text \<open>The environment \<open>happyEnv\<close> with the validator of the spec.\<close>

definition specEnv :: "(string, string) env" where
  "specEnv = happyEnv\<lparr>checkAttributionAnalysisParameter := (\<lambda>q. Inr (specCheck q))\<rparr>"

text \<open>A linear-model request for an existing dashboard whose \<^verbatim>\<open>sheetId\<close> is the empty
  string; a request whose \<^verbatim>\<open>dashboardId\<close> is the empty string; a request for a sheet of
  an existing dashboard.\<close>

definition linearOnDashboard :: query where
  "linearOnDashboard =
     scenario\<lparr>dashboardId := Some ''d1'', sheetId := Some [], modelType := Some (JStr LINEAR)\<rparr>"

definition emptyDashboard :: query where
  "emptyDashboard = scenario\<lparr>dashboardId := Some [], sheetId := Some ''s1''\<rparr>"

definition onSheet :: query where
  "onSheet = scenario\<lparr>dashboardId := Some ''d1'', sheetId := Some ''s1''\<rparr>"

section \<open>The credit rules of the SQL builders\<close>

text \<open>
  The three builders of \<^verbatim>\<open>quicksight/sql-builder-attribution\<close> are not under src/.
  What their statements compute is modelled from section 4.3 of the spec, on a table of
  touch events and a table of conversion events, with exact rational credits.
\<close>

text \<open>Modelled from the spec: the rows of the event store, keyed by user, timestamp and
  event name; \<open>t_seq\<close> is the secondary key that orders events of equal timestamp. The
  builders that read them are missing.\<close>

record touch =
  t_user :: string
  t_time :: int
  t_seq :: nat
  t_name :: string

record conversion =
  c_user :: string
  c_time :: int

type_synonym window = "int \<times> int"

text \<open>Modelled from the spec: the time scope of a request, which the missing builders
  turn into a filter.\<close>

definition inWindow :: "window \<Rightarrow> int \<Rightarrow> bool" where
  "inWindow w t = (fst w \<le> t \<and> t \<le> snd w)"

text \<open>Modelled from the spec: the qualifying touches of a conversion, which the missing
  builders join: the touch events of the same user, within the window, strictly before the
  conversion event.\<close>

definition qualifying :: "window \<Rightarrow> touch list \<Rightarrow> conversion \<Rightarrow> touch list" where
  "qualifying w touches c =
     filter (\<lambda>t. t_user t = c_user c \<and> inWindow w (t_time t) \<and> t_time t < c_time c) touches"

text \<open>Modelled from the spec: the order of the missing builders' ranking, by timestamp and
  then by the secondary key.\<close>

definition earlier :: "touch \<Rightarrow> touch \<Rightarrow> bool" where
  "earlier a b = (t_time a < t_time b \<or> (t_time a = t_time b \<and> t_seq a < t_seq b))"

text \<open>Modelled from the spec: the selection of the missing \<^verbatim>\<open>buildSQLForSinglePointModel\<close>,
  with its direction flag: the earliest touch for first-touch, the latest for
  last-touch.\<close>

definition better :: "bool \<Rightarrow> touch \<Rightarrow> touch \<Rightarrow> touch" where
  "better firstTouch best t =
     (if firstTouch then (if earlier t best then t else best)
      else (if earlier best t then t else best))"

fun pick :: "bool \<Rightarrow> touch list \<Rightarrow> touch option" where
  "pick firstTouch [] = None"
| "pick firstTouch (t # ts) = Some (foldl (better firstTouch) t ts)"

text \<open>Modelled from the spec: the credit rows of the missing
  \<^verbatim>\<open>buildSQLForSinglePointModel\<close>: the selected touch point of a conversion, with the
  whole credit; and the rows of all conversions within the window.\<close>

definition rowsFor :: "bool \<Rightarrow> window \<Rightarrow> touch list \<Rightarrow> conversion \<Rightarrow> (string \<times> rat) list" where
  "rowsFor firstTouch w touches c =
     (case pick firstTouch (qualifying w touches c) of
        None \<Rightarrow> []
      | Some t \<Rightarrow> [(t_name t, 1)])"

definition singlePointRows ::
  "bool \<Rightarrow> window \<Rightarrow> touch list \<Rightarrow> conversion list \<Rightarrow> (string \<times> rat) list" where
  "singlePointRows firstTouch w touches convs =
     concat (map (rowsFor firstTouch w touches) (filter (\<lambda>c. inWindow w (c_time c)) convs))"

text \<open>Modelled from the spec: the aggregate of the missing builders, grouped by touch-point
  name: the summed contribution of a touch point, and the sum over the touch points.\<close>

definition contribution :: "(string \<times> rat) list \<Rightarrow> string \<Rightarrow> rat" where
  "contribution rows name = sum_list (map snd (filter (\<lambda>r. fst r = name) rows))"

definition totalContribution :: "(string \<times> rat) list \<Rightarrow> rat" where
  "totalContribution rows = sum_list (map (contribution rows) (remdups (map fst rows)))"

text \<open>Modelled from the spec: the weights of the missing \<^verbatim>\<open>buildSQLForPositionModel\<close>,
  for the touch at position \<open>i\<close> (from 1) of \<open>n\<close>: the whole credit for a single touch,
  halves for two, otherwise 40% for the first, 40% for the last and the remaining 20%
  in equal parts for the touches between.\<close>

definition positionCredit :: "nat \<Rightarrow> nat \<Rightarrow> rat" where
  "positionCredit n i =
     (if n = 1 then 1
      else if n = 2 then 1 / 2
      else if i = 1 \<or> i = n then 2 / 5
      else (1 / 5) / of_nat (n - 2))"

text \<open>Modelled from the spec: the credit rows of the missing
  \<^verbatim>\<open>buildSQLForPositionModel\<close> for one user-conversion pair, whose qualifying touches
  are given in the order of the events.\<close>

fun rowsFrom :: "nat \<Rightarrow> nat \<Rightarrow> touch list \<Rightarrow> (string \<times> rat) list" where
  "rowsFrom n i [] = []"
| "rowsFrom n i (t # ts) = (t_name t, positionCredit n i) # rowsFrom n (Suc i) ts"

definition positionRows :: "touch list \<Rightarrow> (string \<times> rat) list" where
  "positionRows ts = rowsFrom (length ts) 1 ts"

text \<open>A small event store: two users convert after touches, one converts before its only
  touch, one converts without any.\<close>

definition mkTouch :: "string \<Rightarrow> int \<Rightarrow> nat \<Rightarrow> string \<Rightarrow> touch" where
  "mkTouch u t k name = \<lparr>t_user = u, t_time = t, t_seq = k, t_name = name\<rparr>"

definition sampleTouches :: "touch list" where
  "sampleTouches =
     [mkTouch ''u1'' 10 1 ''view_item'', mkTouch ''u1'' 20 2 ''add_to_cart'',
      mkTouch ''u2'' 15 3 ''search'', mkTouch ''u3'' 90 4 ''view_item'']"

definition sampleConversions :: "conversion list" where
  "sampleConversions =
     [\<lparr>c_user = ''u1'', c_time = 30\<rparr>, \<lparr>c_user = ''u2'', c_time = 40\<rparr>,
      \<lparr>c_user = ''u3'', c_time = 50\<rparr>, \<lparr>c_user = ''u4'', c_time = 60\<rparr>]"

section \<open>Auxiliary facts\<close>

subsection \<open>Traces of the parts of the handler\<close>

lemmas step_defs = andThen_def call_def respond_def yield_def freshUuid_def



lemma builderCalls_append: "builderCalls (xs @ ys) = builderCalls xs @ builderCalls ys"
  by (simp add: builderCalls_def)

lemma encodeCalls_append: "encodeCalls (xs @ ys) = encodeCalls xs @ encodeCalls ys"
  by (simp add: encodeCalls_def)

lemma prepare_returns:
  assumes "checkAttributionAnalysisParameter E q0 = Inr c" and "success c"
    and "getPipelineByProjectId E (projectId q0) = Inr (Some pl)"
    and "getTimezoneByAppId E pl (appId q0) = Inr tz"
    and "encodeAttributionQueryValueForSql E (q0\<lparr>timezone := Some tz\<rparr>) = Inr q"
  shows "prepare E q0 \<lparr>trace = [], uuidCount = n\<rparr> =
           (Inr (q, pl),
            \<lparr>trace = [Validate q0, PipelineLookup (projectId q0), TimezoneLookup (appId q0),
                      Encode (q0\<lparr>timezone := Some tz\<rparr>)],
             uuidCount = n\<rparr>)"
  using assms by (simp add: prepare_def step_defs)

lemma createModelVisual_trace:
  "\<exists>ext. trace (snd (createModelVisual E sql sh q pl s)) = trace s @ ext
        \<and> builderCalls ext = [] \<and> encodeCalls ext = []"
  by (cases "getTempResourceName E (viewName q) (action q)";
      cases "getDashboardTitleProps E q";
      simp add: createModelVisual_def step_defs Let_def builderCalls_def encodeCalls_def
         split: sum.splits prod.splits)

lemma answer_trace: "snd (finish (andThen m (answer q) s)) = trace (snd (m s))"
  by (cases "m s") (auto simp: finish_def andThen_def answer_def respond_def yield_def
       split: sum.splits option.splits stop.splits)

lemma build_then_visual:
  "\<exists>ext. trace (snd (andThen (call ev r) (\<lambda>sql. createModelVisual E sql sh q pl) s)) = trace s @ ev # ext
        \<and> builderCalls ext = [] \<and> encodeCalls ext = []"
proof (cases r)
  case (Inl e)
  then show ?thesis
    by (simp add: step_defs builderCalls_def encodeCalls_def)
next
  case (Inr sql)
  obtain ext where "trace (snd (createModelVisual E sql sh q pl (s\<lparr>trace := trace s @ [ev]\<rparr>)))
      = (trace s @ [ev]) @ ext" and "builderCalls ext = []" and "encodeCalls ext = []"
    using createModelVisual_trace [of E sql sh q pl "s\<lparr>trace := trace s @ [ev]\<rparr>"] by auto
  with Inr show ?thesis
    by (simp add: andThen_def call_def)
qed

lemma dispatch_trace:
  "\<exists>rest. trace (snd (dispatch E sh q pl s)) = trace s @ rest \<and> encodeCalls rest = [] \<and>
     builderCalls rest =
       (if looseEq (modelType q) LAST_TOUCH \<or> looseEq (modelType q) FIRST_TOUCH
          then [SinglePointBuilder (query.extend q \<lparr>schemaName = appId q, dbName = projectId q\<rparr>)]
        else if looseEq (modelType q) LINEAR
          then [LinearBuilder (query.extend q \<lparr>schemaName = appId q, dbName = projectId q\<rparr>)]
        else if looseEq (modelType q) POSITION
          then [PositionBuilder (query.extend q \<lparr>schemaName = appId q, dbName = projectId q\<rparr>)]
        else [])"
proof -
  let ?p = "query.extend q \<lparr>schemaName = appId q, dbName = projectId q\<rparr>"
  have sp: "\<exists>ext. trace (snd (createSinglePointModelVisual E sh q pl s)) = trace s @ SinglePointBuilder ?p # ext
        \<and> builderCalls ext = [] \<and> encodeCalls ext = []"
    unfolding createSinglePointModelVisual_def Let_def by (rule build_then_visual)
  have li: "\<exists>ext. trace (snd (createLinearModelVisual E sh q pl s)) = trace s @ LinearBuilder ?p # ext
        \<and> builderCalls ext = [] \<and> encodeCalls ext = []"
    unfolding createLinearModelVisual_def Let_def by (rule build_then_visual)
  have po: "\<exists>ext. trace (snd (createPositionBasedModelVisual E sh q pl s)) = trace s @ PositionBuilder ?p # ext
        \<and> builderCalls ext = [] \<and> encodeCalls ext = []"
    unfolding createPositionBasedModelVisual_def Let_def by (rule build_then_visual)
  consider (a) "looseEq (modelType q) LAST_TOUCH \<or> looseEq (modelType q) FIRST_TOUCH"
    | (b) "\<not> (looseEq (modelType q) LAST_TOUCH \<or> looseEq (modelType q) FIRST_TOUCH)" "looseEq (modelType q) LINEAR"
    | (c) "\<not> (looseEq (modelType q) LAST_TOUCH \<or> looseEq (modelType q) FIRST_TOUCH)" "\<not> looseEq (modelType q) LINEAR"
          "looseEq (modelType q) POSITION"
    | (d) "\<not> (looseEq (modelType q) LAST_TOUCH \<or> looseEq (modelType q) FIRST_TOUCH)" "\<not> looseEq (modelType q) LINEAR"
          "\<not> looseEq (modelType q) POSITION"
    by blast
  then show ?thesis
  proof cases
    case a
    from sp obtain ext where "trace (snd (createSinglePointModelVisual E sh q pl s)) = trace s @ SinglePointBuilder ?p # ext"
      "builderCalls ext = []" "encodeCalls ext = []" by blast
    with a show ?thesis
      by (simp add: dispatch_def builderCalls_def encodeCalls_def del: One_nat_def)
  next
    case b
    from li obtain ext where "trace (snd (createLinearModelVisual E sh q pl s)) = trace s @ LinearBuilder ?p # ext"
      "builderCalls ext = []" "encodeCalls ext = []" by blast
    with b show ?thesis
      by (simp add: dispatch_def builderCalls_def encodeCalls_def)
  next
    case c
    from po obtain ext where "trace (snd (createPositionBasedModelVisual E sh q pl s)) = trace s @ PositionBuilder ?p # ext"
      "builderCalls ext = []" "encodeCalls ext = []" by blast
    with c show ?thesis
      by (simp add: dispatch_def builderCalls_def encodeCalls_def)
  next
    case d
    then show ?thesis
      by (simp add: dispatch_def respond_def builderCalls_def encodeCalls_def)
  qed
qed



lemma run_after_prepare:
  assumes "checkAttributionAnalysisParameter E q0 = Inr c" and "success c"
    and "getPipelineByProjectId E (projectId q0) = Inr (Some pl)"
    and "getTimezoneByAppId E pl (appId q0) = Inr tz"
    and "encodeAttributionQueryValueForSql E (q0\<lparr>timezone := Some tz\<rparr>) = Inr q"
  shows "createAttributionAnalysisVisual E q0 n =
           finish (andThen (render E q pl) (answer q)
             \<lparr>trace = [Validate q0, PipelineLookup (projectId q0), TimezoneLookup (appId q0),
                       Encode (q0\<lparr>timezone := Some tz\<rparr>)],
              uuidCount = n\<rparr>)"
  using prepare_returns [OF assms, of n]
  by (simp add: createAttributionAnalysisVisual_def handler_def andThen_def)

lemma render_trace:
  assumes "\<not> truthy (dashboardId q) \<or> truthy (sheetId q)"
  shows "\<exists>rest. trace (snd (render E q pl s)) = trace s @ rest \<and> encodeCalls rest = [] \<and>
     builderCalls rest =
       (if looseEq (modelType q) LAST_TOUCH \<or> looseEq (modelType q) FIRST_TOUCH
          then [SinglePointBuilder (query.extend q \<lparr>schemaName = appId q, dbName = projectId q\<rparr>)]
        else if looseEq (modelType q) LINEAR
          then [LinearBuilder (query.extend q \<lparr>schemaName = appId q, dbName = projectId q\<rparr>)]
        else if looseEq (modelType q) POSITION
          then [PositionBuilder (query.extend q \<lparr>schemaName = appId q, dbName = projectId q\<rparr>)]
        else [])"
proof (cases "truthy (dashboardId q)")
  case True
  with assms have r: "render E q pl s = dispatch E (the (sheetId q)) q pl s"
    by (simp add: render_def chooseSheetId_def andThen_def yield_def)
  show ?thesis unfolding r by (rule dispatch_trace)
next
  case False
  let ?s = "s\<lparr>trace := trace s @ [NewUuid (uuidv4 E (uuidCount s))], uuidCount := Suc (uuidCount s)\<rparr>"
  from False have r: "render E q pl s = dispatch E (uuidv4 E (uuidCount s)) q pl ?s"
    by (simp add: render_def chooseSheetId_def andThen_def freshUuid_def)
  obtain rest where "trace (snd (dispatch E (uuidv4 E (uuidCount s)) q pl ?s)) = trace ?s @ rest"
    and "encodeCalls rest = []"
    and "builderCalls rest =
       (if looseEq (modelType q) LAST_TOUCH \<or> looseEq (modelType q) FIRST_TOUCH
          then [SinglePointBuilder (query.extend q \<lparr>schemaName = appId q, dbName = projectId q\<rparr>)]
        else if looseEq (modelType q) LINEAR
          then [LinearBuilder (query.extend q \<lparr>schemaName = appId q, dbName = projectId q\<rparr>)]
        else if looseEq (modelType q) POSITION
          then [PositionBuilder (query.extend q \<lparr>schemaName = appId q, dbName = projectId q\<rparr>)]
        else [])"
    using dispatch_trace [of E "uuidv4 E (uuidCount s)" q pl ?s] by blast
  then have "trace (snd (render E q pl s)) = trace s @ (NewUuid (uuidv4 E (uuidCount s)) # rest)
      \<and> encodeCalls (NewUuid (uuidv4 E (uuidCount s)) # rest) = []
      \<and> builderCalls (NewUuid (uuidv4 E (uuidCount s)) # rest) =
       (if looseEq (modelType q) LAST_TOUCH \<or> looseEq (modelType q) FIRST_TOUCH
          then [SinglePointBuilder (query.extend q \<lparr>schemaName = appId q, dbName = projectId q\<rparr>)]
        else if looseEq (modelType q) LINEAR
          then [LinearBuilder (query.extend q \<lparr>schemaName = appId q, dbName = projectId q\<rparr>)]
        else if looseEq (modelType q) POSITION
          then [PositionBuilder (query.extend q \<lparr>schemaName = appId q, dbName = projectId q\<rparr>)]
        else [])"
    unfolding r by (simp add: builderCalls_def encodeCalls_def)
  then show ?thesis by blast
qed



lemma prepare_cases:
  "(\<exists>c pl tz q. checkAttributionAnalysisParameter E q0 = Inr c \<and> success c
       \<and> getPipelineByProjectId E (projectId q0) = Inr (Some pl)
       \<and> getTimezoneByAppId E pl (appId q0) = Inr tz
       \<and> encodeAttributionQueryValueForSql E (q0\<lparr>timezone := Some tz\<rparr>) = Inr q)
   \<or> builderCalls (snd (createAttributionAnalysisVisual E q0 n)) = []"
  by (auto simp: createAttributionAnalysisVisual_def handler_def prepare_def finish_def step_defs
        builderCalls_def split: sum.splits option.splits)

lemma render_missing_sheet:
  assumes "truthy (dashboardId q)" and "\<not> truthy (sheetId q)"
  shows "render E q pl s = (Inl (Return 400 (ApiFail ''missing required parameter sheetId'')), s)"
  using assms by (simp add: render_def chooseSheetId_def andThen_def respond_def)

subsection \<open>Sums of credits\<close>

lemma contribution_over:
  "finite S \<Longrightarrow> fst ` set rows \<subseteq> S \<Longrightarrow> (\<Sum>name\<in>S. contribution rows name) = sum_list (map snd rows)"
proof (induction rows)
  case Nil
  then show ?case by (simp add: contribution_def)
next
  case (Cons r rs)
  have split: "contribution (r # rs) name = (if fst r = name then snd r else 0) + contribution rs name" for name
    by (simp add: contribution_def)
  have "(\<Sum>name\<in>S. contribution (r # rs) name) =
          (\<Sum>name\<in>S. if fst r = name then snd r else 0) + (\<Sum>name\<in>S. contribution rs name)"
    by (simp add: split sum.distrib)
  also have "(\<Sum>name\<in>S. if fst r = name then snd r else 0) = snd r"
    using Cons.prems by (simp add: sum.delta)
  also have "(\<Sum>name\<in>S. contribution rs name) = sum_list (map snd rs)"
    using Cons by simp
  finally show ?case by simp
qed

lemma totalContribution_all: "totalContribution rows = sum_list (map snd rows)"
proof -
  have "totalContribution rows = (\<Sum>name\<in>set (map fst rows). contribution rows name)"
    unfolding totalContribution_def
    by (simp add: sum_list_distinct_conv_sum_set sum.set_conv_list [symmetric] del: set_map)
  also have "\<dots> = sum_list (map snd rows)"
    by (rule contribution_over) auto
  finally show ?thesis .
qed

lemma pick_none: "pick f ts = None \<longleftrightarrow> ts = []"
  by (cases ts) simp_all

lemma rowsFor_sum:
  "sum_list (map snd (rowsFor f w touches c)) = (if qualifying w touches c = [] then 0 else 1)"
  by (cases "qualifying w touches c") (simp_all add: rowsFor_def)

lemma concat_sum:
  "sum_list (map snd (concat (map g cs))) = (\<Sum>c\<leftarrow>cs. sum_list (map snd (g c)))"
  by (induction cs) simp_all

lemma count_sum: "(\<Sum>c\<leftarrow>cs. if P c then 0 else (1::rat)) = of_nat (length (filter (\<lambda>c. \<not> P c) cs))"
  by (induction cs) simp_all

lemma earlier_trans: "earlier a b \<Longrightarrow> earlier b c \<Longrightarrow> earlier a c"
  by (auto simp: earlier_def)

lemma earlier_asym: "earlier a b \<Longrightarrow> \<not> earlier b a"
  by (auto simp: earlier_def)

lemma earlier_cotrans: "\<not> earlier a b \<Longrightarrow> \<not> earlier b c \<Longrightarrow> \<not> earlier a c"
  by (auto simp: earlier_def)

lemma foldl_first:
  "foldl (better True) a ts \<in> set (a # ts) \<and> (\<forall>u\<in>set (a # ts). \<not> earlier u (foldl (better True) a ts))"
proof (induction ts arbitrary: a)
  case Nil
  then show ?case by (simp add: earlier_def)
next
  case (Cons t ts)
  let ?b = "better True a t"
  from Cons [of ?b] have mem: "foldl (better True) ?b ts \<in> set (?b # ts)"
    and low: "\<forall>u\<in>set (?b # ts). \<not> earlier u (foldl (better True) ?b ts)" by simp_all
  have b: "?b = a \<or> ?b = t" by (simp add: better_def)
  have ba: "\<not> earlier a ?b" and bt: "\<not> earlier t ?b"
    by (auto simp: better_def earlier_def)
  from low have bb: "\<not> earlier ?b (foldl (better True) ?b ts)" by simp
  have "\<not> earlier a (foldl (better True) ?b ts)" using ba bb by (rule earlier_cotrans)
  moreover have "\<not> earlier t (foldl (better True) ?b ts)" using bt bb by (rule earlier_cotrans)
  ultimately show ?case using mem low b by auto
qed

lemma foldl_last:
  "foldl (better False) a ts \<in> set (a # ts) \<and> (\<forall>u\<in>set (a # ts). \<not> earlier (foldl (better False) a ts) u)"
proof (induction ts arbitrary: a)
  case Nil
  then show ?case by (simp add: earlier_def)
next
  case (Cons t ts)
  let ?b = "better False a t"
  from Cons [of ?b] have mem: "foldl (better False) ?b ts \<in> set (?b # ts)"
    and low: "\<forall>u\<in>set (?b # ts). \<not> earlier (foldl (better False) ?b ts) u" by simp_all
  have b: "?b = a \<or> ?b = t" by (simp add: better_def)
  have ba: "\<not> earlier ?b a" and bt: "\<not> earlier ?b t"
    by (auto simp: better_def earlier_def)
  from low have bb: "\<not> earlier (foldl (better False) ?b ts) ?b" by simp
  have "\<not> earlier (foldl (better False) ?b ts) a" using bb ba by (rule earlier_cotrans)
  moreover have "\<not> earlier (foldl (better False) ?b ts) t" using bb bt by (rule earlier_cotrans)
  ultimately show ?case using mem low b by auto
qed

lemma rowsFrom_append:
  "rowsFrom n i (xs @ ys) = rowsFrom n i xs @ rowsFrom n (i + length xs) ys"
  by (induction xs arbitrary: i) simp_all

lemma rowsFrom_middle:
  "3 \<le> n \<Longrightarrow> 1 < i \<Longrightarrow> i + length ms \<le> n \<Longrightarrow>
     rowsFrom n i ms = map (\<lambda>t. (t_name t, (1 / 5) / of_nat (n - 2))) ms"
  by (induction ms arbitrary: i) (simp_all add: positionCredit_def)

lemma middle_sum:
  "sum_list (map snd (map (\<lambda>t. (t_name t, c)) ms)) = of_nat (length ms) * (c :: rat)"
  by (induction ms) (simp_all add: algebra_simps)

section \<open>The claims\<close>

lemmas run_defs = createAttributionAnalysisVisual_def finish_def handler_def prepare_def
  render_def step_defs chooseSheetId_def dispatch_def answer_def
  createSinglePointModelVisual_def createLinearModelVisual_def
  createPositionBasedModelVisual_def createModelVisual_def Let_def

lemmas sample_defs = happyEnv_def stubEnv_def okStatus_def failStatus_def artifact_def
  scenario_def linearOnDashboard_def emptyDashboard_def onSheet_def truthy_def nullish_def
  LAST_TOUCH_def FIRST_TOUCH_def LINEAR_def POSITION_def PREVIEW_def EN_US_def TABLE_def
  CHART_def builderCalls_def encodeCalls_def sheetsUsed_def query.extend_def
  looseEq_def specEnv_def specCheck_def otherField_def

subsection \<open>C1: the dispatch on the model type\<close>




text \<open>
  The comparison is the coercing one: a request whose \<^verbatim>\<open>modelType\<close> is the array
  \<^verbatim>\<open>["LINEAR"]\<close>, let through by a validator that accepts everything, runs the linear
  builder and is answered with 201; the string \<^verbatim>\<open>UNKNOWN\<close> is answered with 400.
\<close>

lemma dispatch_coerces_array:
  "fst (createAttributionAnalysisVisual happyEnv (scenario\<lparr>modelType := Some (JArr [JStr LINEAR])\<rparr>) 0) =
     Response 201 (ApiSuccess (artifact ''https://embed''))
   \<and> (\<exists>p. builderCalls (snd (createAttributionAnalysisVisual happyEnv
         (scenario\<lparr>modelType := Some (JArr [JStr LINEAR])\<rparr>) 0)) = [LinearBuilder p])
   \<and> createAttributionAnalysisVisual happyEnv (scenario\<lparr>modelType := Some (JStr ''UNKNOWN'')\<rparr>) 0 =
       (Response 400 (ApiFail ''Invalid attribution analysis model type''),
        [Validate (scenario\<lparr>modelType := Some (JStr ''UNKNOWN'')\<rparr>), PipelineLookup (Some ''p1''),
         TimezoneLookup (Some ''a1''),
         Encode (scenario\<lparr>modelType := Some (JStr ''UNKNOWN''), timezone := Some ''+00:00''\<rparr>),
         NewUuid ''uuid-''])"
  by (simp add: run_defs sample_defs)

subsection \<open>C2: the single-point model\<close>

text \<open>
  Claim C2: for a conversion with no qualifying touch the single-point model gives no
  row; for a conversion with qualifying touches it gives exactly one row, the whole
  credit 1 for one touch event, which is a touch of the converting user within the
  window and strictly before the conversion, and which no qualifying touch precedes
  (first-touch) or follows (last-touch). So the contributions, summed over the touch
  points, are the number of conversions within the window that have a qualifying touch.
\<close>

theorem single_point_credit:
  "(qualifying w touches c = [] \<longrightarrow> rowsFor f w touches c = [])
 \<and> (qualifying w touches c \<noteq> [] \<longrightarrow>
      (\<exists>t. rowsFor f w touches c = [(t_name t, 1)]
         \<and> t \<in> set touches \<and> t_user t = c_user c \<and> inWindow w (t_time t) \<and> t_time t < c_time c
         \<and> (\<forall>u\<in>set (qualifying w touches c). if f then \<not> earlier u t else \<not> earlier t u)))
 \<and> totalContribution (singlePointRows f w touches convs) =
      of_nat (length (filter (\<lambda>c. inWindow w (c_time c) \<and> qualifying w touches c \<noteq> []) convs))"
proof (intro conjI impI)
  assume "qualifying w touches c = []"
  then show "rowsFor f w touches c = []" by (simp add: rowsFor_def)
next
  assume ne: "qualifying w touches c \<noteq> []"
  then obtain a ts where q: "qualifying w touches c = a # ts" by (cases "qualifying w touches c") auto
  let ?t = "foldl (better f) a ts"
  have row: "rowsFor f w touches c = [(t_name ?t, 1)]" by (simp add: rowsFor_def q)
  have sel: "?t \<in> set (a # ts) \<and> (\<forall>u\<in>set (a # ts). if f then \<not> earlier u ?t else \<not> earlier ?t u)"
    using foldl_first [of a ts] foldl_last [of a ts] by (cases f) simp_all
  then have "?t \<in> set (qualifying w touches c)" by (simp add: q)
  then have "?t \<in> set touches \<and> t_user ?t = c_user c \<and> inWindow w (t_time ?t) \<and> t_time ?t < c_time c"
    by (simp add: qualifying_def)
  with row sel q show "\<exists>t. rowsFor f w touches c = [(t_name t, 1)]
         \<and> t \<in> set touches \<and> t_user t = c_user c \<and> inWindow w (t_time t) \<and> t_time t < c_time c
         \<and> (\<forall>u\<in>set (qualifying w touches c). if f then \<not> earlier u t else \<not> earlier t u)"
    by (cases f) auto
next
  have "totalContribution (singlePointRows f w touches convs) =
          (\<Sum>c\<leftarrow>filter (\<lambda>c. inWindow w (c_time c)) convs. if qualifying w touches c = [] then 0 else 1)"
    by (simp add: totalContribution_all singlePointRows_def concat_sum rowsFor_sum)
  also have "\<dots> = of_nat (length (filter (\<lambda>c. qualifying w touches c \<noteq> [])
                        (filter (\<lambda>c. inWindow w (c_time c)) convs)))"
    by (rule count_sum)
  finally show "totalContribution (singlePointRows f w touches convs) =
      of_nat (length (filter (\<lambda>c. inWindow w (c_time c) \<and> qualifying w touches c \<noteq> []) convs))"
    by (simp add: conj_commute)
qed

theorem single_point_credit_witness:
  "qualifying (0, 100) sampleTouches \<lparr>c_user = ''u1'', c_time = 30\<rparr> \<noteq> []
   \<and> rowsFor False (0, 100) sampleTouches \<lparr>c_user = ''u1'', c_time = 30\<rparr> = [(''add_to_cart'', 1)]
   \<and> qualifying (0, 100) sampleTouches \<lparr>c_user = ''u3'', c_time = 50\<rparr> = []
   \<and> totalContribution (singlePointRows False (0, 100) sampleTouches sampleConversions) = 2"
proof -
  have q1: "qualifying (0, 100) sampleTouches \<lparr>c_user = ''u1'', c_time = 30\<rparr> \<noteq> []"
    by (simp add: qualifying_def sampleTouches_def mkTouch_def inWindow_def)
  have q3: "qualifying (0, 100) sampleTouches \<lparr>c_user = ''u3'', c_time = 50\<rparr> = []"
    by (simp add: qualifying_def sampleTouches_def mkTouch_def inWindow_def)
  have row: "rowsFor False (0, 100) sampleTouches \<lparr>c_user = ''u1'', c_time = 30\<rparr> = [(''add_to_cart'', 1)]"
    by (simp add: rowsFor_def qualifying_def sampleTouches_def mkTouch_def inWindow_def
          better_def earlier_def)
  have n: "length (filter (\<lambda>c. inWindow (0, 100) (c_time c) \<and> qualifying (0, 100) sampleTouches c \<noteq> [])
             sampleConversions) = 2"
    by (simp add: qualifying_def sampleTouches_def sampleConversions_def mkTouch_def inWindow_def)
  from single_point_credit [of "(0, 100)" sampleTouches "\<lparr>c_user = ''u1'', c_time = 30\<rparr>" False
      sampleConversions] n
  have "totalContribution (singlePointRows False (0, 100) sampleTouches sampleConversions) = 2"
    by simp
  with q1 q3 row show ?thesis by simp
qed

subsection \<open>C3: the position-based model\<close>

text \<open>
  Claim C3: for one user-conversion pair, a single qualifying touch receives the credit
  1; two touches receive 1/2 each; of three or more touches the first receives 2/5, the
  last 2/5, and each touch between them the same share of 1/5, their shares adding up to
  1/5 and all the shares to 1.
\<close>

theorem position_credit:
  "positionRows [a] = [(t_name a, 1)]
 \<and> positionRows [a, b] = [(t_name a, 1 / 2), (t_name b, 1 / 2)]
 \<and> (3 \<le> length ts \<longrightarrow>
      positionRows ts =
        (t_name (hd ts), 2 / 5)
          # map (\<lambda>t. (t_name t, (1 / 5) / of_nat (length ts - 2))) (butlast (tl ts))
          @ [(t_name (last ts), 2 / 5)]
      \<and> sum_list (map snd (map (\<lambda>t. (t_name t, (1 / 5) / of_nat (length ts - 2))) (butlast (tl ts)))) = (1 / 5 :: rat)
      \<and> sum_list (map snd (positionRows ts)) = 1)"
proof (intro conjI impI)
  show "positionRows [a] = [(t_name a, 1)]"
    by (simp add: positionRows_def positionCredit_def)
  show "positionRows [a, b] = [(t_name a, 1 / 2), (t_name b, 1 / 2)]"
    by (simp add: positionRows_def positionCredit_def)
next
  assume n: "3 \<le> length ts"
  then obtain x rest where ts1: "ts = x # rest" by (cases ts) auto
  with n have "rest \<noteq> []" by auto
  then obtain ms z where rest: "rest = ms @ [z]" by (metis rev_exhaust)
  have ts: "ts = x # ms @ [z]" by (simp add: ts1 rest)
  have len: "length ts = length ms + 2" by (simp add: ts)
  have ms: "ms \<noteq> []" using n len by auto
  have mid: "rowsFrom (length ts) (Suc (Suc 0)) ms = map (\<lambda>t. (t_name t, (1 / 5) / of_nat (length ts - 2))) ms"
    using n len by (intro rowsFrom_middle) simp_all
  have rows: "positionRows ts =
        (t_name x, 2 / 5) # map (\<lambda>t. (t_name t, (1 / 5) / of_nat (length ts - 2))) ms @ [(t_name z, 2 / 5)]"
    using n mid ms unfolding positionRows_def
    by (simp add: ts rowsFrom_append positionCredit_def)
  show shape: "positionRows ts =
        (t_name (hd ts), 2 / 5)
          # map (\<lambda>t. (t_name t, (1 / 5) / of_nat (length ts - 2))) (butlast (tl ts))
          @ [(t_name (last ts), 2 / 5)]"
    unfolding rows by (simp add: ts)
  show msum: "sum_list (map snd (map (\<lambda>t. (t_name t, (1 / 5) / of_nat (length ts - 2))) (butlast (tl ts)))) = (1 / 5 :: rat)"
    unfolding middle_sum using ms by (simp add: ts)
  show "sum_list (map snd (positionRows ts)) = 1"
    unfolding shape using msum by simp
qed

theorem position_credit_witness:
  "3 \<le> length sampleTouches
   \<and> positionRows sampleTouches =
       [(''view_item'', 2 / 5), (''add_to_cart'', 1 / 10), (''search'', 1 / 10), (''view_item'', 2 / 5)]
   \<and> sum_list (map snd (positionRows sampleTouches)) = 1"
proof -
  have n: "3 \<le> length sampleTouches"
    by (simp add: sampleTouches_def)
  from position_credit [of "hd sampleTouches" "hd sampleTouches" sampleTouches] n
  have rows: "positionRows sampleTouches =
        (t_name (hd sampleTouches), 2 / 5)
          # map (\<lambda>t. (t_name t, (1 / 5) / of_nat (length sampleTouches - 2))) (butlast (tl sampleTouches))
          @ [(t_name (last sampleTouches), 2 / 5)]"
    and total: "sum_list (map snd (positionRows sampleTouches)) = 1"
    by simp_all
  have "positionRows sampleTouches =
       [(''view_item'', 2 / 5), (''add_to_cart'', 1 / 10), (''search'', 1 / 10), (''view_item'', 2 / 5)]"
    unfolding rows by (simp add: sampleTouches_def mkTouch_def)
  with n total show ?thesis by simp
qed

subsection \<open>C4: the answer after the visualization\<close>

text \<open>
  Claim C4: when the request has been prepared and the visualization has returned a
  result \<open>r\<close>: if the embed handle of \<open>r\<close> is empty, the answer is 500 exactly when the
  action is \<^verbatim>\<open>PREVIEW\<close>; if the action is not \<^verbatim>\<open>PREVIEW\<close> or the embed handle is not
  empty, the answer is 201 with \<open>r\<close> as the body. The action is read from the request as
  the encoder has left it.
\<close>

theorem answer_status:
  assumes "fst (prepare E q0 \<lparr>trace = [], uuidCount = n\<rparr>) = Inr (q, pl)"
    and "fst (render E q pl (snd (prepare E q0 \<lparr>trace = [], uuidCount = n\<rparr>))) = Inr (Some r)"
  shows "(dashboardEmbedUrl r = [] \<longrightarrow>
            (statusOf (fst (createAttributionAnalysisVisual E q0 n)) = Some 500
               \<longleftrightarrow> action q = Some PREVIEW))
       \<and> (action q \<noteq> Some PREVIEW \<or> dashboardEmbedUrl r \<noteq> [] \<longrightarrow>
            fst (createAttributionAnalysisVisual E q0 n) = Response 201 (ApiSuccess r))"
proof -
  obtain s1 where p: "prepare E q0 \<lparr>trace = [], uuidCount = n\<rparr> = (Inr (q, pl), s1)"
    using assms(1) by (cases "prepare E q0 \<lparr>trace = [], uuidCount = n\<rparr>") simp
  obtain s2 where r: "render E q pl s1 = (Inr (Some r), s2)"
    using assms(2) unfolding p by (cases "render E q pl s1") simp
  show ?thesis
    using p r
    by (auto simp: createAttributionAnalysisVisual_def handler_def andThen_def answer_def
          finish_def respond_def yield_def)
qed

theorem answer_status_witness:
  "fst (prepare (stubEnv okStatus (Some ''pipeline-1'') (Some (artifact []))) scenario
          \<lparr>trace = [], uuidCount = 0\<rparr>) =
     Inr (scenario\<lparr>timezone := Some ''+00:00''\<rparr>, ''pipeline-1'')
   \<and> fst (render (stubEnv okStatus (Some ''pipeline-1'') (Some (artifact [])))
          (scenario\<lparr>timezone := Some ''+00:00''\<rparr>) ''pipeline-1''
          (snd (prepare (stubEnv okStatus (Some ''pipeline-1'') (Some (artifact []))) scenario
             \<lparr>trace = [], uuidCount = 0\<rparr>))) = Inr (Some (artifact []))
   \<and> dashboardEmbedUrl (artifact []) = []
   \<and> action (scenario\<lparr>timezone := Some ''+00:00''\<rparr>) = Some PREVIEW
   \<and> statusOf (fst (createAttributionAnalysisVisual
        (stubEnv okStatus (Some ''pipeline-1'') (Some (artifact []))) scenario 0)) = Some 500"
proof -
  let ?E = "stubEnv okStatus (Some ''pipeline-1'') (Some (artifact []))"
  let ?q = "scenario\<lparr>timezone := Some ''+00:00''\<rparr>"
  have h1: "fst (prepare ?E scenario \<lparr>trace = [], uuidCount = 0\<rparr>) = Inr (?q, ''pipeline-1'')"
    by (simp add: prepare_def step_defs stubEnv_def okStatus_def scenario_def)
  have h2: "fst (render ?E ?q ''pipeline-1'' (snd (prepare ?E scenario \<lparr>trace = [], uuidCount = 0\<rparr>))) =
              Inr (Some (artifact []))"
    by (simp add: run_defs sample_defs)
  have u: "dashboardEmbedUrl (artifact []) = []"
    by (simp add: artifact_def)
  have a: "action ?q = Some PREVIEW"
    by (simp add: scenario_def)
  from answer_status [OF h1 h2] u a
  have "statusOf (fst (createAttributionAnalysisVisual ?E scenario 0)) = Some 500"
    by simp
  with h1 h2 u a show ?thesis by simp
qed

subsection \<open>C5: a request that fails validation\<close>

text \<open>
  Claim C5: when the validator returns a failure, the answer is 400 with the validator's
  message; nothing is handed to \<^verbatim>\<open>next\<close>; and the call of the validator is the only
  call of the run: no pipeline lookup, no SQL builder, no visualization.
\<close>

theorem validation_failure:
  assumes "checkAttributionAnalysisParameter E q = Inr c" and "\<not> success c"
  shows "createAttributionAnalysisVisual E q n = (Response 400 (ApiFail (message c)), [Validate q])"
  using assms by (simp add: run_defs)

theorem validation_failure_witness:
  "checkAttributionAnalysisParameter (stubEnv failStatus (Some ''pipeline-1'') None) scenario = Inr failStatus
   \<and> \<not> success failStatus
   \<and> createAttributionAnalysisVisual (stubEnv failStatus (Some ''pipeline-1'') None) scenario 0 =
       (Response 400 (ApiFail ''Missing required parameter.''), [Validate scenario])"
proof -
  have h1: "checkAttributionAnalysisParameter (stubEnv failStatus (Some ''pipeline-1'') None) scenario = Inr failStatus"
    by (simp add: stubEnv_def)
  have h2: "\<not> success failStatus"
    by (simp add: failStatus_def)
  from validation_failure [OF h1 h2, of 0] h1 h2 show ?thesis
    by (simp add: failStatus_def)
qed

subsection \<open>C6: a project without a pipeline\<close>

text \<open>
  Claim C6: when the lookup of the pipeline, which runs once validation has passed,
  finds nothing, the answer is 404, and the run has made two calls, the validator's and
  the lookup: no SQL builder is invoked and no visualization is created.
\<close>

theorem pipeline_not_found:
  assumes "checkAttributionAnalysisParameter E q = Inr c" and "success c"
    and "getPipelineByProjectId E (projectId q) = Inr None"
  shows "createAttributionAnalysisVisual E q n =
           (Response 404 (ApiFail ''Pipeline not found''), [Validate q, PipelineLookup (projectId q)])
         \<and> builderCalls (snd (createAttributionAnalysisVisual E q n)) = []
         \<and> visualCalls (snd (createAttributionAnalysisVisual E q n)) = []"
  using assms by (simp add: run_defs builderCalls_def visualCalls_def)

theorem pipeline_not_found_witness:
  "checkAttributionAnalysisParameter (stubEnv okStatus None None) scenario = Inr okStatus
   \<and> success okStatus
   \<and> getPipelineByProjectId (stubEnv okStatus None None) (projectId scenario) = Inr None
   \<and> createAttributionAnalysisVisual (stubEnv okStatus None None) scenario 0 =
       (Response 404 (ApiFail ''Pipeline not found''), [Validate scenario, PipelineLookup (Some ''p1'')])"
proof -
  have h1: "checkAttributionAnalysisParameter (stubEnv okStatus None None) scenario = Inr okStatus"
    by (simp add: stubEnv_def)
  have h2: "success okStatus"
    by (simp add: okStatus_def)
  have h3: "getPipelineByProjectId (stubEnv okStatus None None) (projectId scenario) = Inr None"
    by (simp add: stubEnv_def)
  have p: "projectId scenario = Some ''p1''"
    by (simp add: scenario_def)
  from pipeline_not_found [OF h1 h2 h3, of 0] h1 h2 h3 p show ?thesis
    by simp
qed

subsection \<open>C7: the sheet identifier\<close>

text \<open>
  Claim C7, as it is written, tells a \<^verbatim>\<open>dashboardId\<close> that is present from one that is
  absent. The handler tests \<^verbatim>\<open>!query.dashboardId\<close>, and the empty string is falsy: for a
  request with the \<^verbatim>\<open>dashboardId\<close> \<^verbatim>\<open>""\<close> and the \<^verbatim>\<open>sheetId\<close> \<^verbatim>\<open>"s1"\<close>, both present,
  the sheet handed to the reporting adapter is a fresh identifier, not \<^verbatim>\<open>"s1"\<close>.
\<close>

theorem sheet_id_counterexample:
  "dashboardId emptyDashboard = Some []
   \<and> sheetId emptyDashboard = Some ''s1''
   \<and> fst (createAttributionAnalysisVisual happyEnv emptyDashboard 0) =
       Response 201 (ApiSuccess (artifact ''https://embed''))
   \<and> sheetsUsed (snd (createAttributionAnalysisVisual happyEnv emptyDashboard 0)) = [''uuid-'']"
  by (simp add: run_defs sample_defs)

text \<open>
  Claim C7, amended: for every request that passes validation and resolves a pipeline,
  whose time zone is looked up and whose values are encoded, the encoder leaving
  \<^verbatim>\<open>dashboardId\<close> and \<^verbatim>\<open>sheetId\<close> as they were supplied: if \<^verbatim>\<open>dashboardId\<close> is absent or
  empty, the next identifier of \<^verbatim>\<open>uuidv4\<close> is drawn and the rest of the handler runs
  with it as the sheet; if \<^verbatim>\<open>dashboardId\<close> is not empty and \<^verbatim>\<open>sheetId\<close> is absent or
  empty, the answer is 400 and the run ends after the encoder, with no builder invoked;
  if neither is empty, the rest of the handler runs with the supplied \<^verbatim>\<open>sheetId\<close>,
  unchanged, as the sheet.
\<close>

theorem sheet_id_choice:
  assumes "checkAttributionAnalysisParameter E q0 = Inr c" and "success c"
    and "getPipelineByProjectId E (projectId q0) = Inr (Some pl)"
    and "getTimezoneByAppId E pl (appId q0) = Inr tz"
    and "encodeAttributionQueryValueForSql E (q0\<lparr>timezone := Some tz\<rparr>) = Inr q"
    and "dashboardId q = dashboardId q0" and "sheetId q = sheetId q0"
  shows "(\<not> truthy (dashboardId q0) \<longrightarrow>
            createAttributionAnalysisVisual E q0 n =
              finish (andThen (dispatch E (uuidv4 E n) q pl) (answer q)
                \<lparr>trace = [Validate q0, PipelineLookup (projectId q0), TimezoneLookup (appId q0),
                          Encode (q0\<lparr>timezone := Some tz\<rparr>), NewUuid (uuidv4 E n)],
                 uuidCount = Suc n\<rparr>))
       \<and> (truthy (dashboardId q0) \<and> \<not> truthy (sheetId q0) \<longrightarrow>
            createAttributionAnalysisVisual E q0 n =
              (Response 400 (ApiFail ''missing required parameter sheetId''),
               [Validate q0, PipelineLookup (projectId q0), TimezoneLookup (appId q0),
                Encode (q0\<lparr>timezone := Some tz\<rparr>)]))
       \<and> (\<forall>sid. truthy (dashboardId q0) \<and> sheetId q0 = Some sid \<and> sid \<noteq> [] \<longrightarrow>
            createAttributionAnalysisVisual E q0 n =
              finish (andThen (dispatch E sid q pl) (answer q)
                \<lparr>trace = [Validate q0, PipelineLookup (projectId q0), TimezoneLookup (appId q0),
                          Encode (q0\<lparr>timezone := Some tz\<rparr>)],
                 uuidCount = n\<rparr>))"
  unfolding run_after_prepare [OF assms(1-5)]
  using assms(6,7)
  by (simp add: render_def chooseSheetId_def andThen_def respond_def yield_def freshUuid_def
        finish_def truthy_def)

theorem sheet_id_choice_witness:
  "checkAttributionAnalysisParameter happyEnv onSheet = Inr okStatus
   \<and> success okStatus
   \<and> getPipelineByProjectId happyEnv (projectId onSheet) = Inr (Some ''pipeline-1'')
   \<and> getTimezoneByAppId happyEnv ''pipeline-1'' (appId onSheet) = Inr ''+00:00''
   \<and> encodeAttributionQueryValueForSql happyEnv (onSheet\<lparr>timezone := Some ''+00:00''\<rparr>) =
       Inr (onSheet\<lparr>timezone := Some ''+00:00''\<rparr>)
   \<and> dashboardId (onSheet\<lparr>timezone := Some ''+00:00''\<rparr>) = dashboardId onSheet
   \<and> sheetId (onSheet\<lparr>timezone := Some ''+00:00''\<rparr>) = sheetId onSheet
   \<and> truthy (dashboardId onSheet) \<and> sheetId onSheet = Some ''s1''
   \<and> sheetsUsed (snd (createAttributionAnalysisVisual happyEnv onSheet 0)) = [''s1'']"
proof -
  let ?q = "onSheet\<lparr>timezone := Some ''+00:00''\<rparr>"
  have h1: "checkAttributionAnalysisParameter happyEnv onSheet = Inr okStatus"
    by (simp add: happyEnv_def stubEnv_def)
  have h2: "success okStatus"
    by (simp add: okStatus_def)
  have h3: "getPipelineByProjectId happyEnv (projectId onSheet) = Inr (Some ''pipeline-1'')"
    by (simp add: happyEnv_def stubEnv_def)
  have h4: "getTimezoneByAppId happyEnv ''pipeline-1'' (appId onSheet) = Inr ''+00:00''"
    by (simp add: happyEnv_def stubEnv_def)
  have h5: "encodeAttributionQueryValueForSql happyEnv ?q = Inr ?q"
    by (simp add: happyEnv_def stubEnv_def onSheet_def scenario_def)
  have h6: "dashboardId ?q = dashboardId onSheet"
    by simp
  have h7: "sheetId ?q = sheetId onSheet"
    by simp
  have d: "truthy (dashboardId onSheet)" and s: "sheetId onSheet = Some ''s1''"
    by (simp_all add: onSheet_def truthy_def)
  from sheet_id_choice [OF h1 h2 h3 h4 h5 h6 h7, of 0] d s
  have run: "createAttributionAnalysisVisual happyEnv onSheet 0 =
          finish (andThen (dispatch happyEnv ''s1'' ?q ''pipeline-1'') (answer ?q)
            \<lparr>trace = [Validate onSheet, PipelineLookup (projectId onSheet), TimezoneLookup (appId onSheet),
                      Encode ?q],
             uuidCount = 0\<rparr>)"
    by simp
  have "sheetsUsed (snd (createAttributionAnalysisVisual happyEnv onSheet 0)) = [''s1'']"
    unfolding run by (simp add: run_defs sample_defs)
  with h1 h2 h3 h4 h5 h6 h7 d s show ?thesis by simp
qed

subsection \<open>C8: the encoder runs once, between the time zone and the builder\<close>

text \<open>
  Claim C8: when a run invokes a SQL builder, its trace begins with the validator, the
  pipeline lookup, the time zone lookup and the encoder, in this order; the encoder is
  given the request with the resolved time zone; this is the only call of the encoder
  in the run; exactly one builder is invoked, after it; and the parameters of the
  builder are made from the request that the encoder returned.
\<close>

theorem encoder_once_before_builder:
  assumes "builderCalls (snd (createAttributionAnalysisVisual E q0 n)) \<noteq> []"
  shows "\<exists>pl tz q rest b.
           getTimezoneByAppId E pl (appId q0) = Inr tz
         \<and> encodeAttributionQueryValueForSql E (q0\<lparr>timezone := Some tz\<rparr>) = Inr q
         \<and> snd (createAttributionAnalysisVisual E q0 n) =
             [Validate q0, PipelineLookup (projectId q0), TimezoneLookup (appId q0),
              Encode (q0\<lparr>timezone := Some tz\<rparr>)] @ rest
         \<and> encodeCalls (snd (createAttributionAnalysisVisual E q0 n)) = [Encode (q0\<lparr>timezone := Some tz\<rparr>)]
         \<and> builderCalls rest = [b]
         \<and> (b = SinglePointBuilder (query.extend q \<lparr>schemaName = appId q, dbName = projectId q\<rparr>)
            \<or> b = LinearBuilder (query.extend q \<lparr>schemaName = appId q, dbName = projectId q\<rparr>)
            \<or> b = PositionBuilder (query.extend q \<lparr>schemaName = appId q, dbName = projectId q\<rparr>))"
proof -
  from prepare_cases [of E q0 n] assms
  obtain c pl tz q where h: "checkAttributionAnalysisParameter E q0 = Inr c" "success c"
      "getPipelineByProjectId E (projectId q0) = Inr (Some pl)"
      "getTimezoneByAppId E pl (appId q0) = Inr tz"
      "encodeAttributionQueryValueForSql E (q0\<lparr>timezone := Some tz\<rparr>) = Inr q"
    by blast
  let ?pre = "[Validate q0, PipelineLookup (projectId q0), TimezoneLookup (appId q0),
                       Encode (q0\<lparr>timezone := Some tz\<rparr>)]"
  let ?s1 = "\<lparr>trace = ?pre, uuidCount = n\<rparr>"
  let ?p = "query.extend q \<lparr>schemaName = appId q, dbName = projectId q\<rparr>"
  have run: "createAttributionAnalysisVisual E q0 n = finish (andThen (render E q pl) (answer q) ?s1)"
    using h by (rule run_after_prepare)
  have sheet: "\<not> truthy (dashboardId q) \<or> truthy (sheetId q)"
  proof (rule ccontr)
    assume "\<not> (\<not> truthy (dashboardId q) \<or> truthy (sheetId q))"
    then have "render E q pl ?s1 = (Inl (Return 400 (ApiFail ''missing required parameter sheetId'')), ?s1)"
      by (simp add: render_missing_sheet)
    then have "snd (createAttributionAnalysisVisual E q0 n) = ?pre"
      unfolding run answer_trace by simp
    with assms show False by (simp add: builderCalls_def)
  qed
  obtain rest where tr: "trace (snd (render E q pl ?s1)) = trace ?s1 @ rest"
    and e: "encodeCalls rest = []"
    and b: "builderCalls rest =
       (if looseEq (modelType q) LAST_TOUCH \<or> looseEq (modelType q) FIRST_TOUCH then [SinglePointBuilder ?p]
        else if looseEq (modelType q) LINEAR then [LinearBuilder ?p]
        else if looseEq (modelType q) POSITION then [PositionBuilder ?p]
        else [])"
    using render_trace [OF sheet, of E pl ?s1] by blast
  have whole: "snd (createAttributionAnalysisVisual E q0 n) = ?pre @ rest"
    unfolding run answer_trace tr by simp
  have enc: "encodeCalls (snd (createAttributionAnalysisVisual E q0 n)) = [Encode (q0\<lparr>timezone := Some tz\<rparr>)]"
    unfolding whole encodeCalls_append e by (simp add: encodeCalls_def)
  have "builderCalls rest \<noteq> []"
    using assms unfolding whole builderCalls_append by (simp add: builderCalls_def)
  with b have "\<exists>b. builderCalls rest = [b]
       \<and> (b = SinglePointBuilder ?p \<or> b = LinearBuilder ?p \<or> b = PositionBuilder ?p)"
    by (auto split: if_splits)
  with h(4,5) whole enc show ?thesis by blast
qed

theorem encoder_once_before_builder_witness:
  "builderCalls (snd (createAttributionAnalysisVisual happyEnv scenario 0)) \<noteq> []
   \<and> (\<exists>pl tz q rest b.
           getTimezoneByAppId happyEnv pl (appId scenario) = Inr tz
         \<and> encodeAttributionQueryValueForSql happyEnv (scenario\<lparr>timezone := Some tz\<rparr>) = Inr q
         \<and> snd (createAttributionAnalysisVisual happyEnv scenario 0) =
             [Validate scenario, PipelineLookup (projectId scenario), TimezoneLookup (appId scenario),
              Encode (scenario\<lparr>timezone := Some tz\<rparr>)] @ rest
         \<and> encodeCalls (snd (createAttributionAnalysisVisual happyEnv scenario 0)) =
             [Encode (scenario\<lparr>timezone := Some tz\<rparr>)]
         \<and> builderCalls rest = [b]
         \<and> (b = SinglePointBuilder (query.extend q \<lparr>schemaName = appId q, dbName = projectId q\<rparr>)
            \<or> b = LinearBuilder (query.extend q \<lparr>schemaName = appId q, dbName = projectId q\<rparr>)
            \<or> b = PositionBuilder (query.extend q \<lparr>schemaName = appId q, dbName = projectId q\<rparr>)))"
proof -
  have h: "builderCalls (snd (createAttributionAnalysisVisual happyEnv scenario 0)) \<noteq> []"
    by (simp add: run_defs sample_defs)
  from encoder_once_before_builder [OF h] h show ?thesis
    by blast
qed

subsection \<open>C9: the parameters of the builders\<close>

text \<open>
  Claim C9: each of the three methods invokes its builder once, with parameters whose
  \<^verbatim>\<open>schemaName\<close> is the \<^verbatim>\<open>appId\<close> of the request it was given (the encoded request),
  whose \<^verbatim>\<open>dbName\<close> is its \<^verbatim>\<open>projectId\<close>, and whose other fields are the fields of that
  request, unchanged.
\<close>

theorem builder_parameters:
  "\<exists>p. builderCalls (trace (snd (createSinglePointModelVisual E sh q pl s))) =
            builderCalls (trace s) @ [SinglePointBuilder p]
      \<and> builderCalls (trace (snd (createLinearModelVisual E sh q pl s))) =
            builderCalls (trace s) @ [LinearBuilder p]
      \<and> builderCalls (trace (snd (createPositionBasedModelVisual E sh q pl s))) =
            builderCalls (trace s) @ [PositionBuilder p]
      \<and> schemaName p = appId q \<and> dbName p = projectId q \<and> query.truncate p = q"
proof -
  let ?p = "query.extend q \<lparr>schemaName = appId q, dbName = projectId q\<rparr>"
  have sp: "builderCalls (trace (snd (createSinglePointModelVisual E sh q pl s))) =
            builderCalls (trace s) @ [SinglePointBuilder ?p]"
    using build_then_visual [of "SinglePointBuilder ?p" "buildSQLForSinglePointModel E ?p" E sh q pl s]
    by (auto simp: createSinglePointModelVisual_def Let_def builderCalls_def)
  have li: "builderCalls (trace (snd (createLinearModelVisual E sh q pl s))) =
            builderCalls (trace s) @ [LinearBuilder ?p]"
    using build_then_visual [of "LinearBuilder ?p" "buildSQLForLinearModel E ?p" E sh q pl s]
    by (auto simp: createLinearModelVisual_def Let_def builderCalls_def)
  have po: "builderCalls (trace (snd (createPositionBasedModelVisual E sh q pl s))) =
            builderCalls (trace s) @ [PositionBuilder ?p]"
    using build_then_visual [of "PositionBuilder ?p" "buildSQLForPositionModel E ?p" E sh q pl s]
    by (auto simp: createPositionBasedModelVisual_def Let_def builderCalls_def)
  have fields: "schemaName ?p = appId q \<and> dbName ?p = projectId q \<and> query.truncate ?p = q"
    by (simp add: query.extend_def query.truncate_def)
  from sp li po fields show ?thesis by blast
qed

subsection \<open>C10: the defaults of locale and chart type\<close>

text \<open>
  Claim C10: in \<^verbatim>\<open>createModelVisual\<close>, when the calls before them return, the visual
  definition is asked for with the chart type \<^verbatim>\<open>TABLE\<close> if the request has no
  \<^verbatim>\<open>chartType\<close> and with the request's \<^verbatim>\<open>chartType\<close> otherwise, and the related
  definitions are asked for with the locale \<^verbatim>\<open>EN_US\<close> if the request has no
  \<^verbatim>\<open>locale\<close> and with the request's \<^verbatim>\<open>locale\<close> otherwise.
\<close>

theorem locale_and_chart_defaults:
  assumes "getTempResourceName E (viewName q) (action q) = Inr view"
    and "getDashboardTitleProps E q = Inr t"
    and "getAttributionTableVisualDef E (uuidv4 E (uuidCount s)) view t
           (case chartType q of None \<Rightarrow> TABLE | Some c \<Rightarrow> c) = Inr vd"
  shows "\<exists>ct loc params rest.
           trace (snd (createModelVisual E sql sh q pl s)) =
             trace s @ [TempResourceName (viewName q) (action q), NewUuid (uuidv4 E (uuidCount s)),
                        TitleProps q, TableVisualDef (uuidv4 E (uuidCount s)) view t ct,
                        VisualRelatedDefsCall params loc] @ rest
         \<and> (chartType q = None \<longrightarrow> ct = TABLE) \<and> (\<forall>c. chartType q = Some c \<longrightarrow> ct = c)
         \<and> (locale q = None \<longrightarrow> loc = EN_US) \<and> (\<forall>l. locale q = Some l \<longrightarrow> loc = l)"
  using assms
  by (cases "chartType q"; cases "locale q")
     (auto simp: createModelVisual_def step_defs Let_def nullish_def split: sum.splits)

theorem locale_and_chart_defaults_witness:
  "getTempResourceName happyEnv (viewName scenario) (action scenario) = Inr ''v1_PREVIEW''
   \<and> getDashboardTitleProps happyEnv scenario = Inr ''title''
   \<and> getAttributionTableVisualDef happyEnv (uuidv4 happyEnv (uuidCount \<lparr>trace = [], uuidCount = 0\<rparr>))
        ''v1_PREVIEW'' ''title'' (case chartType scenario of None \<Rightarrow> TABLE | Some c \<Rightarrow> c) = Inr ''visual''
   \<and> chartType scenario = None \<and> locale scenario = None
   \<and> (\<exists>params rest.
         trace (snd (createModelVisual happyEnv ''select 1'' ''sheet-1'' scenario ''pipeline-1''
                  \<lparr>trace = [], uuidCount = 0\<rparr>)) =
           [TempResourceName (viewName scenario) (action scenario), NewUuid ''uuid-'',
            TitleProps scenario, TableVisualDef ''uuid-'' ''v1_PREVIEW'' ''title'' TABLE,
            VisualRelatedDefsCall params EN_US] @ rest)"
proof -
  let ?s = "\<lparr>trace = [], uuidCount = 0\<rparr> :: string state"
  have h1: "getTempResourceName happyEnv (viewName scenario) (action scenario) = Inr ''v1_PREVIEW''"
    by (simp add: happyEnv_def stubEnv_def scenario_def nullish_def PREVIEW_def)
  have h2: "getDashboardTitleProps happyEnv scenario = Inr ''title''"
    by (simp add: happyEnv_def stubEnv_def)
  have h3: "getAttributionTableVisualDef happyEnv (uuidv4 happyEnv (uuidCount ?s))
        ''v1_PREVIEW'' ''title'' (case chartType scenario of None \<Rightarrow> TABLE | Some c \<Rightarrow> c) = Inr ''visual''"
    by (simp add: happyEnv_def stubEnv_def)
  have c: "chartType scenario = None" and l: "locale scenario = None"
    by (simp_all add: scenario_def)
  have u: "uuidv4 happyEnv (uuidCount ?s) = ''uuid-''"
    by (simp add: happyEnv_def stubEnv_def)
  from locale_and_chart_defaults [OF h1 h2 h3, of "''select 1''" "''sheet-1''" "''pipeline-1''"] c l u
  have "\<exists>params rest.
         trace (snd (createModelVisual happyEnv ''select 1'' ''sheet-1'' scenario ''pipeline-1'' ?s)) =
           [TempResourceName (viewName scenario) (action scenario), NewUuid ''uuid-'',
            TitleProps scenario, TableVisualDef ''uuid-'' ''v1_PREVIEW'' ''title'' TABLE,
            VisualRelatedDefsCall params EN_US] @ rest"
    by auto
  with h1 h2 h3 c l show ?thesis by simp
qed

end
